theory Spec2Isabelle
  imports Main "HOL-Library.Sublist" "HOL-Library.AList"
begin

section \<open>Python strings\<close>

text \<open>
  File names are modelled as lists of 8-bit characters. The case functions act on the
  ASCII letters and leave every other character alone, which is what \<^verbatim>\<open>str.lower\<close>,
  \<^verbatim>\<open>str.upper\<close> and \<^verbatim>\<open>str.capitalize\<close> do on ASCII text.
\<close>

definition is_upper :: "char \<Rightarrow> bool" where
  "is_upper c = (let n = (of_char c :: nat) in 65 \<le> n \<and> n \<le> 90)"

definition is_lower :: "char \<Rightarrow> bool" where
  "is_lower c = (let n = (of_char c :: nat) in 97 \<le> n \<and> n \<le> 122)"

definition lower_char :: "char \<Rightarrow> char" where
  "lower_char c = (if is_upper c then char_of ((of_char c :: nat) + 32) else c)"

definition upper_char :: "char \<Rightarrow> char" where
  "upper_char c = (if is_lower c then char_of ((of_char c :: nat) - 32) else c)"

text \<open>\<^verbatim>\<open>s.lower()\<close>\<close>

definition lower :: "string \<Rightarrow> string" where
  "lower s = map lower_char s"

text \<open>\<^verbatim>\<open>s.capitalize()\<close>: the first character in upper case, the others in lower case.\<close>

fun capitalize :: "string \<Rightarrow> string" where
  "capitalize [] = []"
| "capitalize (c # cs) = upper_char c # lower cs"

text \<open>\<^verbatim>\<open>s.startswith(p)\<close>, \<^verbatim>\<open>s.endswith(p)\<close> and \<^verbatim>\<open>w in s\<close>.\<close>

definition startswith :: "string \<Rightarrow> string \<Rightarrow> bool" where
  "startswith s p = prefix p s"

definition endswith :: "string \<Rightarrow> string \<Rightarrow> bool" where
  "endswith s p = suffix p s"

definition contains :: "string \<Rightarrow> string \<Rightarrow> bool" where
  "contains s w = sublist w s"

text \<open>\<^verbatim>\<open>any(word in s for word in words)\<close>\<close>

definition contains_any :: "string \<Rightarrow> string list \<Rightarrow> bool" where
  "contains_any s ws = list_ex (contains s) ws"

text \<open>
  \<^verbatim>\<open>s.split(sep)\<close> for a one-character separator: the pieces between the separators,
  empty pieces included; the result always has at least one element.
\<close>

fun split_on :: "char \<Rightarrow> string \<Rightarrow> string list" where
  "split_on sep [] = [[]]"
| "split_on sep (c # cs) =
     (if c = sep then [] # split_on sep cs
      else (case split_on sep cs of
              [] \<Rightarrow> [[c]]
            | p # ps \<Rightarrow> (c # p) # ps))"

text \<open>\<^verbatim>\<open>s.rfind(c)\<close> for a character: the index of its last occurrence, or \<open>-1\<close>.\<close>

fun rfind :: "string \<Rightarrow> char \<Rightarrow> int" where
  "rfind [] ch = - 1"
| "rfind (c # cs) ch =
     (let r = rfind cs ch in
      if 0 \<le> r then r + 1 else if c = ch then 0 else - 1)"

text \<open>\<^verbatim>\<open>sep.join(ws)\<close>\<close>

fun join :: "string \<Rightarrow> string list \<Rightarrow> string" where
  "join sep [] = []"
| "join sep [w] = w"
| "join sep (w # ws) = w @ sep @ join sep ws"

text \<open>
  \<^verbatim>\<open>s.split()\<close>: the maximal runs of characters that are not white space. On ASCII
  text Python's white space is the characters 9 to 13, 28 to 31 and the blank.
\<close>

definition is_space :: "char \<Rightarrow> bool" where
  "is_space c = (let n = (of_char c :: nat) in (9 \<le> n \<and> n \<le> 13) \<or> (28 \<le> n \<and> n \<le> 32))"

fun split_ws_aux :: "string \<Rightarrow> string \<Rightarrow> string list" where
  "split_ws_aux cur [] = (if cur = [] then [] else [rev cur])"
| "split_ws_aux cur (c # cs) =
     (if is_space c then (if cur = [] then split_ws_aux [] cs else rev cur # split_ws_aux [] cs)
      else split_ws_aux (c # cur) cs)"

definition split_ws :: "string \<Rightarrow> string list" where
  "split_ws s = split_ws_aux [] s"

text \<open>\<^verbatim>\<open>s.replace(a, b)\<close> for single characters.\<close>

definition replace_char :: "char \<Rightarrow> char \<Rightarrow> string \<Rightarrow> string" where
  "replace_char a b s = map (\<lambda>c. if c = a then b else c) s"

text \<open>
  \<^verbatim>\<open>s.isascii()\<close>. Outside ASCII, Python's case mapping, white space and digits are
  those of Unicode; the statements that depend on them are made for ASCII names.
\<close>

definition isascii :: "string \<Rightarrow> bool" where
  "isascii s = list_all (\<lambda>c. (of_char c :: nat) < 128) s"


section \<open>pathlib\<close>

text \<open>
  \<^verbatim>\<open>Path(p)\<close> on a POSIX system keeps the segments of \<open>p\<close> between slashes that are
  neither empty nor a single dot. \<^verbatim>\<open>.name\<close> is the last of them (the empty string when
  there is none); \<^verbatim>\<open>.suffix\<close> starts at the last dot of the name, provided that dot is
  neither the first nor the last character; \<^verbatim>\<open>.stem\<close> is the name without the suffix.
\<close>

definition path_parts :: "string \<Rightarrow> string list" where
  "path_parts p = filter (\<lambda>x. x \<noteq> [] \<and> x \<noteq> ''.'') (split_on CHR ''/'' p)"

definition path_name :: "string \<Rightarrow> string" where
  "path_name p = (case path_parts p of [] \<Rightarrow> [] | x # xs \<Rightarrow> last (x # xs))"

definition path_suffix :: "string \<Rightarrow> string" where
  "path_suffix p =
     (let name = path_name p; i = rfind name CHR ''.'' in
      if 0 < i \<and> i < int (length name) - 1 then drop (nat i) name else [])"

definition path_stem :: "string \<Rightarrow> string" where
  "path_stem p =
     (let name = path_name p; i = rfind name CHR ''.'' in
      if 0 < i \<and> i < int (length name) - 1 then take (nat i) name else name)"


section \<open>Classification\<close>

text \<open>\<^verbatim>\<open>detect_category_from_filename\<close>\<close>

definition beginner_words :: "string list" where
  "beginner_words = [''beginner'', ''basic'', ''intro'', ''fundamentals'', ''101'', ''start'']"

definition advanced_words :: "string list" where
  "advanced_words = [''advanced'', ''expert'', ''master'', ''professional'', ''deep'']"

definition intermediate_words :: "string list" where
  "intermediate_words = [''intermediate'', ''medium'', ''standard'', ''level2'']"

definition detect_category_from_filename :: "string \<Rightarrow> string" where
  "detect_category_from_filename filename =
     (let filename_lower = lower filename in
      if contains_any filename_lower beginner_words then ''beginner''
      else if contains_any filename_lower advanced_words then ''advanced''
      else if contains_any filename_lower intermediate_words then ''intermediate''
      else ''beginner'')"

definition categories :: "string list" where
  "categories = [''beginner'', ''intermediate'', ''advanced'']"

text \<open>
  The loop of \<^verbatim>\<open>parse_video_info\<close> over the category prefixes: the first category
  \<open>cat\<close> with \<^verbatim>\<open>file_name.lower().startswith(cat + "-")\<close> returns.
\<close>

fun prefix_rule :: "string list \<Rightarrow> string \<Rightarrow> (string \<times> string) option" where
  "prefix_rule [] file_name = None"
| "prefix_rule (cat # cats) file_name =
     (if startswith (lower file_name) (cat @ ''-'')
      then Some (cat, drop (length cat + 1) file_name)
      else prefix_rule cats file_name)"

text \<open>The folder branch of \<^verbatim>\<open>parse_video_info\<close>; \<open>None\<close> when it does not return.\<close>

definition folder_rule :: "string \<Rightarrow> (string \<times> string) option" where
  "folder_rule blob_name =
     (if CHR ''/'' \<in> set blob_name then
        (let parts = split_on CHR ''/'' blob_name in
         if 2 \<le> length parts \<and> lower (hd parts) \<in> set categories
         then Some (lower (hd parts), path_stem (last parts))
         else None)
      else None)"

definition parse_video_info :: "string \<Rightarrow> string \<times> string" where
  "parse_video_info blob_name =
     (let file_name = path_stem blob_name in
      case folder_rule blob_name of
        Some r \<Rightarrow> r
      | None \<Rightarrow>
          (case prefix_rule categories file_name of
             Some r \<Rightarrow> r
           | None \<Rightarrow> (detect_category_from_filename file_name, file_name)))"


section \<open>Regular expressions\<close>

text \<open>
  The fragment of Python's \<^verbatim>\<open>re\<close> that \<^verbatim>\<open>clean_filename_for_title\<close> uses: the
  anchor \<^verbatim>\<open>^\<close>, literals under \<^verbatim>\<open>re.IGNORECASE\<close>, character classes, sequence,
  alternation, the greedy \<^verbatim>\<open>?\<close>, and the greedy \<^verbatim>\<open>+\<close> of a character class.
\<close>

datatype regex =
    Bol
  | Lit_ci string
  | Class "char \<Rightarrow> bool"
  | Seq regex regex
  | Alt regex regex
  | Opt regex
  | Plus_class "char \<Rightarrow> bool"

text \<open>The ways a greedy \<^verbatim>\<open>[..]+\<close> matches at the start of a string, longest first.\<close>

fun plus_rests :: "(char \<Rightarrow> bool) \<Rightarrow> string \<Rightarrow> string list" where
  "plus_rests p [] = []"
| "plus_rests p (c # cs) = (if p c then plus_rests p cs @ [cs] else [])"

text \<open>
  \<open>matches r at0 s\<close> lists what is left of \<open>s\<close> after each way of matching \<open>r\<close> at its
  start, in the order in which the backtracking matcher tries them; \<open>at0\<close> tells
  whether \<open>s\<close> starts at the beginning of the subject string.
\<close>

primrec matches :: "regex \<Rightarrow> bool \<Rightarrow> string \<Rightarrow> string list" where
  "matches Bol at0 s = (if at0 then [s] else [])"
| "matches (Lit_ci w) at0 s =
     (if length w \<le> length s \<and> lower (take (length w) s) = lower w
      then [drop (length w) s] else [])"
| "matches (Class p) at0 s = (case s of [] \<Rightarrow> [] | c # cs \<Rightarrow> if p c then [cs] else [])"
| "matches (Seq a b) at0 s =
     concat (map (\<lambda>rest. matches b (at0 \<and> length rest = length s) rest) (matches a at0 s))"
| "matches (Alt a b) at0 s = matches a at0 s @ matches b at0 s"
| "matches (Opt a) at0 s = matches a at0 s @ [s]"
| "matches (Plus_class p) at0 s = plus_rests p s"

text \<open>
  \<^verbatim>\<open>re.sub(r, repl, s)\<close> with a constant replacement: at each position the first match
  is replaced and the scan goes on behind it; where nothing matches the character is
  copied. An empty match is replaced too, and the scan then moves one character on.
\<close>

function sub_from :: "regex \<Rightarrow> string \<Rightarrow> bool \<Rightarrow> string \<Rightarrow> string" where
  "sub_from r repl at0 [] = (if matches r at0 [] \<noteq> [] then repl else [])"
| "sub_from r repl at0 (c # cs) =
     (if matches r at0 (c # cs) \<noteq> [] \<and> length (hd (matches r at0 (c # cs))) < Suc (length cs)
      then repl @ sub_from r repl False (hd (matches r at0 (c # cs)))
      else (if matches r at0 (c # cs) \<noteq> [] then repl else []) @ c # sub_from r repl False cs)"
  by pat_completeness auto
termination
  by (relation "measure (\<lambda>(r, repl, at0, s). length s)") auto

definition re_sub :: "regex \<Rightarrow> string \<Rightarrow> string \<Rightarrow> string" where
  "re_sub r repl s = sub_from r repl True s"

definition is_digit :: "char \<Rightarrow> bool" where
  "is_digit c = (let n = (of_char c :: nat) in 48 \<le> n \<and> n \<le> 57)"

definition is_sep :: "char \<Rightarrow> bool" where
  "is_sep c = (c = CHR ''-'' \<or> c = CHR ''_'')"


section \<open>Synthesis\<close>

text \<open>\<^verbatim>\<open>clean_filename_for_title\<close>\<close>

definition clean_filename_for_title :: "string \<Rightarrow> string" where
  "clean_filename_for_title filename =
     (let title = re_sub (Seq Bol (Seq (Alt (Lit_ci ''beginner'')
                                       (Alt (Lit_ci ''intermediate'') (Lit_ci ''advanced'')))
                                  (Opt (Class is_sep)))) [] filename;
          title = re_sub (Plus_class is_sep) '' '' title;
          title = re_sub (Plus_class is_digit) [] title;
          title = join '' '' (map capitalize (filter (\<lambda>word. word \<noteq> []) (split_ws title)))
      in if title = [] then ''Training Video'' else title)"

text \<open>\<^verbatim>\<open>estimate_duration\<close>; Python's \<^verbatim>\<open>//\<close> on integers is \<open>div\<close>.\<close>

definition estimate_duration :: "int \<Rightarrow> int" where
  "estimate_duration file_size = max 300 (min 7200 (file_size div (1024 * 1024) * 8))"


text \<open>
  The metadata document is a Python dict with string keys. \<open>Unordered\<close> stands for
  the result of \<^verbatim>\<open>list(set(...))\<close>, a list whose order Python does not determine.
\<close>

datatype pyval =
    PyStr string
  | PyInt int
  | PyList "pyval list"
  | PyDict "(string \<times> pyval) list"
  | PyUnordered "string set"

type_synonym metadata = "(string \<times> pyval) list"

text \<open>\<^verbatim>\<open>d.update(other)\<close> and \<^verbatim>\<open>d.get(k, default)\<close>\<close>

definition dict_update :: "('k \<times> 'v) list \<Rightarrow> ('k \<times> 'v) list \<Rightarrow> ('k \<times> 'v) list" where
  "dict_update d other = fold (\<lambda>(k, v). AList.update k v) other d"

definition dict_get :: "('k \<times> 'v) list \<Rightarrow> 'k \<Rightarrow> 'v \<Rightarrow> 'v" where
  "dict_get d k dflt = (case map_of d k of None \<Rightarrow> dflt | Some v \<Rightarrow> v)"

text \<open>\<^verbatim>\<open>[word.lower() for word in title.split() if len(word) > 3]\<close>\<close>

definition long_words :: "string \<Rightarrow> string list" where
  "long_words title = map lower (filter (\<lambda>word. 3 < length word) (split_ws title))"

definition generate_topics_from_title :: "string \<Rightarrow> pyval" where
  "generate_topics_from_title title =
     (let words = long_words title;
          topics = [''training'', ''tutorial''] @ take 3 words
      in PyUnordered (set topics))"

definition generate_learning_objectives :: "string \<Rightarrow> string \<Rightarrow> pyval" where
  "generate_learning_objectives title category =
     (let objectives_map =
        [(''beginner'', PyList
            [PyStr (''Understand the fundamentals of '' @ lower title),
             PyStr ''Apply basic concepts in practical scenarios'',
             PyStr ''Identify key principles and best practices'']),
         (''intermediate'', PyList
            [PyStr (''Master intermediate techniques in '' @ lower title),
             PyStr ''Analyze complex scenarios and develop solutions'',
             PyStr ''Integrate concepts with existing knowledge'']),
         (''advanced'', PyList
            [PyStr (''Achieve expert-level proficiency in '' @ lower title),
             PyStr ''Develop innovative approaches and strategies'',
             PyStr ''Lead implementation and mentor others''])]
      in dict_get objectives_map category (dict_get objectives_map ''beginner'' (PyList [])))"

definition generate_prerequisites :: "string \<Rightarrow> pyval" where
  "generate_prerequisites category =
     (let prereq_map =
        [(''beginner'', PyList []),
         (''intermediate'', PyList
            [PyStr ''Basic understanding of core concepts'',
             PyStr ''Completion of beginner-level training'']),
         (''advanced'', PyList
            [PyStr ''Intermediate certification'',
             PyStr ''Practical experience'',
             PyStr ''Strong foundational knowledge''])]
      in dict_get prereq_map category (PyList []))"

definition generate_tags :: "string \<Rightarrow> string \<Rightarrow> pyval" where
  "generate_tags title category =
     (let base_tags = [''training'', ''tutorial'', category];
          title_words = long_words title
      in PyUnordered (set (base_tags @ take 3 title_words)))"

definition mk_chapter :: "string \<Rightarrow> int \<Rightarrow> int \<Rightarrow> string \<Rightarrow> pyval" where
  "mk_chapter t s e d =
     PyDict [(''title'', PyStr t), (''start_time'', PyInt s), (''end_time'', PyInt e),
           (''description'', PyStr d)]"

definition generate_chapters :: "string \<Rightarrow> string \<Rightarrow> pyval" where
  "generate_chapters title category =
     (if category = ''beginner'' then PyList
        [mk_chapter ''Course Introduction'' 0 180 (''Welcome and overview of '' @ title),
         mk_chapter ''Basic Concepts'' 180 900 ''Fundamental principles and concepts'',
         mk_chapter ''Practical Examples'' 900 1200 ''Step-by-step examples and demonstrations'',
         mk_chapter ''Practice & Summary'' 1200 1500 ''Practice exercises and key takeaways'']
      else if category = ''intermediate'' then PyList
        [mk_chapter ''Review & Setup'' 0 300 ''Prerequisites review and setup'',
         mk_chapter ''Advanced Concepts'' 300 1000 ''Intermediate-level concepts and techniques'',
         mk_chapter ''Case Studies'' 1000 1400 ''Real-world applications and case studies'',
         mk_chapter ''Best Practices'' 1400 1800 ''Industry best practices and next steps'']
      else PyList
        [mk_chapter ''Expert Overview'' 0 240 ''Advanced concepts overview'',
         mk_chapter ''Deep Dive Analysis'' 240 1080 ''In-depth technical analysis'',
         mk_chapter ''Advanced Techniques'' 1080 1560 ''Expert-level techniques and strategies'',
         mk_chapter ''Innovation & Leadership'' 1560 1800
           ''Innovation approaches and leadership aspects''])"

text \<open>The dict that \<^verbatim>\<open>list_existing_videos\<close> builds for each video.\<close>

record video_info =
  blob_name :: string
  file_name :: string
  clean_name :: string
  category :: string
  size_bytes :: int
  url :: string

text \<open>
  The expression of \<^verbatim>\<open>create_metadata\<close> for \<^verbatim>\<open>video_id\<close>:
  \<^verbatim>\<open>f"{category}-{clean_name.lower().replace(' ', '-').replace('_', '-')}"\<close>.
\<close>

definition slug :: "string \<Rightarrow> string" where
  "slug cname = replace_char CHR ''_'' CHR ''-'' (replace_char CHR '' '' CHR ''-'' (lower cname))"

definition video_id_of :: "string \<Rightarrow> string \<Rightarrow> string" where
  "video_id_of cat cname = cat @ ''-'' @ slug cname"

definition create_metadata :: "video_info \<Rightarrow> metadata option \<Rightarrow> metadata" where
  "create_metadata video custom_data =
     (let cname = clean_name video;
          cat = category video;
          title = clean_filename_for_title cname;
          video_id = video_id_of cat cname;
          metadata =
            [(''video_id'', PyStr video_id),
             (''title'', PyStr title),
             (''description'', PyStr (''Training video: '' @ title @ '' - '' @ capitalize cat
                 @ '' level content for comprehensive learning'')),
             (''category'', PyStr cat),
             (''duration_seconds'', PyInt (estimate_duration (size_bytes video))),
             (''thumbnail_url'', PyStr []),
             (''video_url'', PyStr (url video)),
             (''transcript'', PyStr (''Training content covering '' @ lower title @ ''. This ''
                 @ cat @ ''-level course provides comprehensive instruction on the topic.'')),
             (''topics'', generate_topics_from_title title),
             (''learning_objectives'', generate_learning_objectives title cat),
             (''prerequisites'', generate_prerequisites cat),
             (''difficulty_level'', PyStr cat),
             (''instructor'', PyStr ''Training Expert''),
             (''created_date'', PyStr ''2024-10-21T00:00:00Z''),
             (''updated_date'', PyStr ''2024-10-21T00:00:00Z''),
             (''tags'', generate_tags title cat),
             (''chapters'', generate_chapters title cat)]
      in case custom_data of
           None \<Rightarrow> metadata
         | Some custom \<Rightarrow> if custom = [] then metadata else dict_update metadata custom)"


section \<open>The blob store\<close>

text \<open>
  The container is the list of its blobs, in the order in which the service lists
  them. A blob has the name and the size that the SDK's \<^verbatim>\<open>BlobProperties\<close> report, and
  the bytes that were uploaded to it (only those of the JSON documents matter here).
\<close>

record blob =
  name :: string
  blob_size :: int
  content :: string

type_synonym container = "blob list"

text \<open>An exception of the storage SDK, with its message.\<close>

datatype exn = Exn string

text \<open>
  \<^verbatim>\<open>container_client.list_blobs(name_starts_with=p)\<close> gives an iterator that fetches the
  listing page by page, so iterating over it can raise after some blobs have been
  yielded. The outcome of one listing is the blobs yielded and the exception that ended
  the iteration, if any; \<open>Some (n, e)\<close> is a listing that raises \<open>e\<close> after at most
  \<open>n\<close> blobs.
\<close>

definition list_blobs :: "container \<Rightarrow> string \<Rightarrow> (nat \<times> exn) option \<Rightarrow> blob list \<times> exn option" where
  "list_blobs store name_starts_with fault =
     (let blobs = filter (\<lambda>b. startswith (name b) name_starts_with) store in
      case fault of
        None \<Rightarrow> (blobs, None)
      | Some (n, e) \<Rightarrow> (take n blobs, Some e))"

text \<open>\<^verbatim>\<open>blob_client.upload_blob(data, overwrite=True)\<close>\<close>

fun upload_blob :: "blob \<Rightarrow> container \<Rightarrow> container" where
  "upload_blob b [] = [b]"
| "upload_blob b (x # xs) = (if name x = name b then b # xs else x # upload_blob b xs)"

text \<open>
  The generator object: the account and container names of its clients, and
  \<^verbatim>\<open>json.dumps(_, indent=2)\<close>, which is taken as a parameter.
\<close>

record generator =
  account_name :: string
  container_name :: string
  json_dumps :: "metadata \<Rightarrow> string"

text \<open>What the program prints, one event for each \<^verbatim>\<open>print\<close>.\<close>

datatype event =
    Scanning
  | Found nat
  | Error_listing exn
  | No_videos
  | Generating_for nat
  | Skipping string
  | Generating string
  | Created string
  | Error_uploading string exn
  | Video_not_found string
  | Complete
  | Generated nat
  | Skipped nat
  | Total nat

text \<open>\<^verbatim>\<open>urllib.parse.quote\<close> with its default \<^verbatim>\<open>safe='/'\<close>\<close>

definition hex_digit :: "nat \<Rightarrow> char" where
  "hex_digit n = ''0123456789ABCDEF'' ! (n mod 16)"

definition always_safe :: "char \<Rightarrow> bool" where
  "always_safe c = (is_upper c \<or> is_lower c \<or> is_digit c \<or> c \<in> set ''_.-~'')"

definition quote :: "string \<Rightarrow> string" where
  "quote s = concat (map (\<lambda>c. if always_safe c \<or> c = CHR ''/'' then [c]
       else [CHR ''%'', hex_digit ((of_char c :: nat) div 16), hex_digit (of_char c)]) s)"


section \<open>Inventory\<close>

definition video_extensions :: "string list" where
  "video_extensions = [''.mp4'', ''.avi'', ''.mov'', ''.wmv'', ''.mkv'', ''.flv'', ''.webm'']"

text \<open>The loop of \<^verbatim>\<open>list_existing_videos\<close> over the blobs that the listing yields.\<close>

fun scan_blobs :: "generator \<Rightarrow> blob list \<Rightarrow> video_info list" where
  "scan_blobs g [] = []"
| "scan_blobs g (b # bs) =
     (if startswith (name b) ''metadata/'' then scan_blobs g bs
      else if lower (path_suffix (name b)) \<in> set video_extensions then
        (case parse_video_info (name b) of (cat, cname) \<Rightarrow>
           \<lparr>blob_name = name b,
            file_name = path_name (name b),
            clean_name = cname,
            category = cat,
            size_bytes = blob_size b,
            url = ''https://'' @ account_name g @ ''.blob.core.windows.net/''
                  @ container_name g @ ''/'' @ quote (name b)\<rparr>
           # scan_blobs g bs)
      else scan_blobs g bs)"

text \<open>
  \<^verbatim>\<open>list_existing_videos\<close>: the \<^verbatim>\<open>try\<close> encloses the listing and the whole loop, and the
  handler returns the empty list, whatever the loop had collected.
\<close>

definition list_existing_videos ::
  "generator \<Rightarrow> container \<Rightarrow> (nat \<times> exn) option \<Rightarrow> video_info list \<times> event list" where
  "list_existing_videos g store fault =
     (case list_blobs store [] fault of
        (blobs, None) \<Rightarrow>
          (let videos = scan_blobs g blobs in (videos, [Scanning, Found (length videos)]))
      | (blobs, Some e) \<Rightarrow> ([], [Scanning, Error_listing e]))"


section \<open>Publication\<close>

text \<open>
  \<^verbatim>\<open>upload_metadata\<close>; \<open>fault\<close> is the exception that the body of its \<^verbatim>\<open>try\<close> raises,
  if it raises one, and then nothing is written.
\<close>

definition upload_metadata ::
  "generator \<Rightarrow> metadata \<Rightarrow> string \<Rightarrow> exn option \<Rightarrow> container \<Rightarrow> bool \<times> container \<times> event list" where
  "upload_metadata g metadata metadata_filename fault store =
     (case fault of
        None \<Rightarrow>
          (let metadata_json = json_dumps g metadata;
               blob_path = ''metadata/'' @ metadata_filename
           in (True,
               upload_blob \<lparr>name = blob_path, blob_size = int (length metadata_json),
                            content = metadata_json\<rparr> store,
               [Created blob_path]))
      | Some e \<Rightarrow> (False, store, [Error_uploading metadata_filename e]))"


section \<open>The batch driver\<close>

text \<open>
  The loop that fills \<^verbatim>\<open>existing_metadata\<close>. When the listing raises, the bare
  \<^verbatim>\<open>except: pass\<close> keeps what the loop had added to the set until then.
\<close>

definition collect_existing :: "blob list \<Rightarrow> string set" where
  "collect_existing blobs =
     set (map (\<lambda>b. path_stem (name b)) (filter (\<lambda>b. endswith (name b) ''.json'') blobs))"

text \<open>
  The state of the loop over the videos: the container, the two counters, the outcomes
  of the uploads still to come (the head is that of the next call of
  \<^verbatim>\<open>upload_metadata\<close>; an upload beyond the list succeeds) and what was printed.
\<close>

record batch_state =
  store_of :: container
  generated_count :: nat
  skipped_count :: nat
  upload_faults :: "exn option list"
  printed :: "event list"

fun batch_loop :: "generator \<Rightarrow> string set \<Rightarrow> bool \<Rightarrow> video_info list \<Rightarrow> batch_state \<Rightarrow> batch_state" where
  "batch_loop g existing_metadata force_overwrite [] st = st"
| "batch_loop g existing_metadata force_overwrite (video # videos) st =
     (let metadata_filename = clean_name video @ ''.json'' in
      if clean_name video \<in> existing_metadata \<and> \<not> force_overwrite then
        batch_loop g existing_metadata force_overwrite videos
          (st\<lparr>skipped_count := skipped_count st + 1,
              printed := printed st @ [Skipping (file_name video)]\<rparr>)
      else
        (let metadata = create_metadata video None;
             fault = (case upload_faults st of [] \<Rightarrow> None | f # fs \<Rightarrow> f)
         in case upload_metadata g metadata metadata_filename fault (store_of st) of
              (ok, store', evs) \<Rightarrow>
                batch_loop g existing_metadata force_overwrite videos
                  (st\<lparr>store_of := store',
                      generated_count := (if ok then generated_count st + 1 else generated_count st),
                      upload_faults := tl (upload_faults st),
                      printed := printed st @ [Generating (file_name video)] @ evs\<rparr>)))"

text \<open>What the storage service does wrong during one run.\<close>

record faults =
  videos_listing :: "(nat \<times> exn) option"
  metadata_listing :: "(nat \<times> exn) option"
  uploads :: "exn option list"

definition no_faults :: faults where
  "no_faults = \<lparr>videos_listing = None, metadata_listing = None, uploads = []\<rparr>"

text \<open>\<^verbatim>\<open>generate_all_metadata\<close>: the final state of the loop, counters included.\<close>

definition generate_all_metadata :: "generator \<Rightarrow> faults \<Rightarrow> bool \<Rightarrow> container \<Rightarrow> batch_state" where
  "generate_all_metadata g fs force_overwrite store =
     (case list_existing_videos g store (videos_listing fs) of (videos, evs) \<Rightarrow>
        if videos = [] then
          \<lparr>store_of = store, generated_count = 0, skipped_count = 0,
           upload_faults = uploads fs, printed = evs @ [No_videos]\<rparr>
        else
          (let existing_metadata =
                 collect_existing (fst (list_blobs store ''metadata/'' (metadata_listing fs)));
               st = batch_loop g existing_metadata force_overwrite videos
                      \<lparr>store_of = store, generated_count = 0, skipped_count = 0,
                       upload_faults = uploads fs,
                       printed = evs @ [Generating_for (length videos)]\<rparr>
           in st\<lparr>printed := printed st @ [Complete, Generated (generated_count st),
                                           Skipped (skipped_count st), Total (length videos)]\<rparr>))"


text \<open>
  \<^verbatim>\<open>generate_metadata_for_video\<close>: the first video of the inventory whose blob name or
  file name is the one asked for; the only upload takes the first outcome of \<open>uploads\<close>.
\<close>

definition generate_metadata_for_video ::
  "generator \<Rightarrow> faults \<Rightarrow> string \<Rightarrow> metadata option \<Rightarrow> container \<Rightarrow> container \<times> event list" where
  "generate_metadata_for_video g fs video_blob_name custom_metadata store =
     (case list_existing_videos g store (videos_listing fs) of (videos, evs) \<Rightarrow>
        (case find (\<lambda>video. blob_name video = video_blob_name \<or> file_name video = video_blob_name)
                videos of
           None \<Rightarrow> (store, evs @ [Video_not_found video_blob_name])
         | Some target_video \<Rightarrow>
             (let metadata = create_metadata target_video custom_metadata;
                  metadata_filename = clean_name target_video @ ''.json'';
                  fault = (case uploads fs of [] \<Rightarrow> None | f # fs' \<Rightarrow> f)
              in case upload_metadata g metadata metadata_filename fault store of
                   (ok, store', evs') \<Rightarrow>
                     (store', evs @ [Generating (file_name target_video)] @ evs'))))"


section \<open>The specification's words\<close>

text \<open>\<open>clamp(x, lo, hi)\<close>: \<open>x\<close> brought into the interval from \<open>lo\<close> to \<open>hi\<close>.\<close>

definition clamp :: "int \<Rightarrow> int \<Rightarrow> int \<Rightarrow> int" where
  "clamp x lo hi = (if x < lo then lo else if hi < x then hi else x)"


section \<open>Duration estimate\<close>

text \<open>
  Claim C5. For every size, \<open>estimate_duration\<close> is the clamp of
  \<open>(size div 1048576) * 8\<close> to the interval from 300 to 7200; so its result is always
  between 300 and 7200, it is 300 at size 0 and 7200 at size \<open>900 * 1024 * 1024\<close>, and it
  is monotonic non-decreasing in the size. The statement holds for every integer, the
  non-negative ones in particular.
\<close>

theorem estimate_duration_clamp:
  "(\<forall>s. estimate_duration s = clamp (s div 1048576 * 8) 300 7200)
   \<and> (\<forall>s. 300 \<le> estimate_duration s \<and> estimate_duration s \<le> 7200)
   \<and> estimate_duration 0 = 300
   \<and> estimate_duration (900 * 1024 * 1024) = 7200
   \<and> (\<forall>a b. a \<le> b \<longrightarrow> estimate_duration a \<le> estimate_duration b)"
proof -
  have mono: "estimate_duration a \<le> estimate_duration b" if "a \<le> b" for a b
  proof -
    from that have "a div (1024 * 1024) \<le> b div (1024 * 1024)"
      by (rule zdiv_mono1) simp
    then show ?thesis
      unfolding estimate_duration_def by simp
  qed
  show ?thesis
    using mono by (simp add: estimate_duration_def clamp_def)
qed

theorem estimate_duration_clamp_witness:
  "(0::int) \<le> 943718400 \<and> estimate_duration 0 \<le> estimate_duration 943718400
   \<and> estimate_duration 943718400 = 7200"
  using estimate_duration_clamp by (simp add: clamp_def)


section \<open>Keyword detection\<close>

lemma contains_any_iff: "contains_any s ws \<longleftrightarrow> (\<exists>w\<in>set ws. sublist w s)"
  by (simp add: contains_any_def contains_def list_ex_iff)

text \<open>
  Claim C1, as stated, fails: the name \<open>intro-master.mp4\<close> matches neither the folder
  rule nor the prefix rule and contains the beginner keyword \<open>intro\<close> and the advanced
  keyword \<open>master\<close>, and its category is \<open>beginner\<close>, not \<open>advanced\<close>.
\<close>

theorem keyword_precedence_counterexample:
  "folder_rule ''intro-master.mp4'' = None
   \<and> prefix_rule categories (path_stem ''intro-master.mp4'') = None
   \<and> sublist ''intro'' (lower (path_stem ''intro-master.mp4'')) \<and> ''intro'' \<in> set beginner_words
   \<and> sublist ''master'' (lower (path_stem ''intro-master.mp4'')) \<and> ''master'' \<in> set advanced_words
   \<and> fst (parse_video_info ''intro-master.mp4'') = ''beginner''
   \<and> fst (parse_video_info ''intro-master.mp4'') \<noteq> ''advanced''"
  by code_simp

text \<open>
  Claim C1, amended. For every name that matches neither the folder rule nor the prefix
  rule, the clean name is the base name and the category comes from keyword detection
  on the lowercased base name, the beginner keywords being checked first: \<open>beginner\<close>
  if it contains any of beginner, basic, intro, fundamentals, 101, start; else
  \<open>advanced\<close> if it contains any of advanced, expert, master, professional, deep; else
  \<open>intermediate\<close> if it contains any of intermediate, medium, standard, level2; else
  \<open>beginner\<close>. In particular a name with both a beginner and an advanced keyword is
  classified \<open>beginner\<close>.
\<close>

theorem keyword_detection_precedence:
  assumes "folder_rule p = None" and "prefix_rule categories (path_stem p) = None"
  shows "snd (parse_video_info p) = path_stem p
    \<and> fst (parse_video_info p) =
      (if \<exists>w\<in>set beginner_words. sublist w (lower (path_stem p)) then ''beginner''
       else if \<exists>w\<in>set advanced_words. sublist w (lower (path_stem p)) then ''advanced''
       else if \<exists>w\<in>set intermediate_words. sublist w (lower (path_stem p)) then ''intermediate''
       else ''beginner'')
    \<and> ((\<exists>w\<in>set beginner_words. sublist w (lower (path_stem p))) \<and>
        (\<exists>w\<in>set advanced_words. sublist w (lower (path_stem p))) \<longrightarrow>
         fst (parse_video_info p) = ''beginner'')"
  using assms
  by (simp add: parse_video_info_def detect_category_from_filename_def contains_any_iff Let_def)

theorem keyword_detection_precedence_witness:
  "folder_rule ''intro-master.mp4'' = None
   \<and> prefix_rule categories (path_stem ''intro-master.mp4'') = None
   \<and> (\<exists>w\<in>set beginner_words. sublist w (lower (path_stem ''intro-master.mp4'')))
   \<and> (\<exists>w\<in>set advanced_words. sublist w (lower (path_stem ''intro-master.mp4'')))
   \<and> fst (parse_video_info ''intro-master.mp4'') = ''beginner''"
proof -
  have f: "folder_rule ''intro-master.mp4'' = None" by code_simp
  have p: "prefix_rule categories (path_stem ''intro-master.mp4'') = None" by code_simp
  have b: "\<exists>w\<in>set beginner_words. sublist w (lower (path_stem ''intro-master.mp4''))" by code_simp
  have a: "\<exists>w\<in>set advanced_words. sublist w (lower (path_stem ''intro-master.mp4''))" by code_simp
  from keyword_detection_precedence [OF f p] f p a b show ?thesis by blast
qed


section \<open>Category tables\<close>

text \<open>
  Claim C3. The objectives, the prerequisites and the chapters are each a table of three
  fixed entries keyed by category, the three entries of each table being pairwise
  different. For the category \<open>expert\<close>, which is none of the three, the objectives and
  the prerequisites are the beginner entries, as the claim says; the chapters are not:
  \<open>generate_chapters\<close> returns the advanced chapters, under a branch that the source
  marks as the advanced one.
\<close>

theorem chapters_unknown_category:
  "''expert'' \<notin> set categories
   \<and> generate_learning_objectives title ''expert''
       = generate_learning_objectives title ''beginner''
   \<and> generate_prerequisites ''expert'' = generate_prerequisites ''beginner''
   \<and> generate_chapters title ''expert'' = generate_chapters title ''advanced''
   \<and> generate_chapters title ''expert'' \<noteq> generate_chapters title ''beginner''
   \<and> distinct (map (generate_learning_objectives title) categories)
   \<and> distinct (map generate_prerequisites categories)
   \<and> distinct (map (generate_chapters title) categories)
   \<and> length categories = 3"
  by (simp add: categories_def generate_learning_objectives_def generate_prerequisites_def
      generate_chapters_def mk_chapter_def dict_get_def)


section \<open>Failure of the listing\<close>

text \<open>
  Claim C9. When the listing of the container raises, at its start or after any number
  of blobs, \<open>list_existing_videos\<close> reports the error and returns the empty list: the
  value it also returns for a container without videos, so the return value alone
  does not tell the two apart.
\<close>

theorem listing_failure_returns_empty:
  "list_existing_videos g store (Some (n, e)) = ([], [Scanning, Error_listing e])
   \<and> fst (list_existing_videos g store (Some (n, e))) = fst (list_existing_videos g [] None)"
  by (simp add: list_existing_videos_def list_blobs_def)


section \<open>Inventory membership\<close>

lemma upload_blob_names:
  "name ` set (upload_blob b xs) = insert (name b) (name ` set xs)"
  by (induction xs) auto

lemma upload_metadata_names:
  "name ` set (fst (snd (upload_metadata g m f fault store)))
     \<subseteq> insert (''metadata/'' @ f) (name ` set store)"
proof (cases fault)
  case None
  then have "fst (snd (upload_metadata g m f fault store)) = upload_blob \<lparr>name = ''metadata/'' @ f,
          blob_size = int (length (json_dumps g m)), content = json_dumps g m\<rparr> store"
    by (simp add: upload_metadata_def Let_def)
  then show ?thesis by (simp only: upload_blob_names) simp
next
  case (Some e)
  then have "fst (snd (upload_metadata g m f fault store)) = store" by (simp add: upload_metadata_def)
  then show ?thesis by auto
qed

lemma single_video_names:
  "name ` set (fst (generate_metadata_for_video g fs x custom store))
     \<subseteq> name ` set store \<union> (\<lambda>v. ''metadata/'' @ clean_name v @ ''.json'')
           ` set (fst (list_existing_videos g store (videos_listing fs)))"
proof (cases "list_existing_videos g store (videos_listing fs)")
  case (Pair videos evs)
  show ?thesis
  proof (cases "find (\<lambda>video. blob_name video = x \<or> file_name video = x) videos")
    case None
    with Pair show ?thesis by (simp add: generate_metadata_for_video_def)
  next
    case (Some v)
    then have m: "v \<in> set videos" by (auto simp: find_Some_iff)
    from Pair Some have "fst (generate_metadata_for_video g fs x custom store) =
      fst (snd (upload_metadata g (create_metadata v custom) (clean_name v @ ''.json'')
         (case uploads fs of [] \<Rightarrow> None | f # fs' \<Rightarrow> f) store))"
      by (simp add: generate_metadata_for_video_def Let_def split: prod.splits)
    with upload_metadata_names [of g "create_metadata v custom" "clean_name v @ ''.json''"
       "case uploads fs of [] \<Rightarrow> None | f # fs' \<Rightarrow> f" store] m Pair
    show ?thesis by auto
  qed
qed

lemma scan_blobs_names:
  "map blob_name (scan_blobs g bs) =
     filter (\<lambda>n. \<not> startswith n ''metadata/'' \<and> lower (path_suffix n) \<in> set video_extensions)
       (map name bs)"
  by (induction bs) (auto split: prod.splits)

lemma batch_loop_names:
  "name ` set (store_of (batch_loop g ex force vs st))
     \<subseteq> name ` set (store_of st) \<union> (\<lambda>v. ''metadata/'' @ clean_name v @ ''.json'') ` set vs"
proof (induction vs arbitrary: st)
  case Nil
  show ?case by simp
next
  case (Cons v vs)
  show ?case
  proof (cases "clean_name v \<in> ex \<and> \<not> force")
    case True
    with Cons [of "st\<lparr>skipped_count := skipped_count st + 1,
              printed := printed st @ [Skipping (file_name v)]\<rparr>"]
    show ?thesis by auto
  next
    case False
    obtain ok store' evs where u: "upload_metadata g (create_metadata v None) (clean_name v @ ''.json'')
        (case upload_faults st of [] \<Rightarrow> None | f # fs \<Rightarrow> f) (store_of st) = (ok, store', evs)"
      by (cases "upload_metadata g (create_metadata v None) (clean_name v @ ''.json'')
        (case upload_faults st of [] \<Rightarrow> None | f # fs \<Rightarrow> f) (store_of st)") auto
    have s: "name ` set store' \<subseteq> insert (''metadata/'' @ clean_name v @ ''.json'') (name ` set (store_of st))"
    proof (cases "case upload_faults st of [] \<Rightarrow> None | f # fs \<Rightarrow> f")
      case None
      with u have "store' = upload_blob \<lparr>name = ''metadata/'' @ clean_name v @ ''.json'',
          blob_size = int (length (json_dumps g (create_metadata v None))),
          content = json_dumps g (create_metadata v None)\<rparr> (store_of st)"
        by (simp add: upload_metadata_def Let_def)
      then show ?thesis by (simp only: upload_blob_names) simp
    next
      case (Some e)
      with u have "store' = store_of st" by (simp add: upload_metadata_def)
      then show ?thesis by auto
    qed
    define st' where "st' = st\<lparr>store_of := store',
                      generated_count := (if ok then generated_count st + 1 else generated_count st),
                      upload_faults := tl (upload_faults st),
                      printed := printed st @ [Generating (file_name v)] @ evs\<rparr>"
    have e: "batch_loop g ex force (v # vs) st = batch_loop g ex force vs st'"
      by (simp only: batch_loop.simps Let_def if_not_P [OF False] u prod.case st'_def)
    have i: "name ` set (store_of (batch_loop g ex force vs st'))
       \<subseteq> name ` set store' \<union> (\<lambda>v. ''metadata/'' @ clean_name v @ ''.json'') ` set vs"
      using Cons [of st'] by (simp add: st'_def)
    have "name ` set (store_of (batch_loop g ex force vs st'))
       \<subseteq> name ` set (store_of st) \<union> (\<lambda>v. ''metadata/'' @ clean_name v @ ''.json'') ` set (v # vs)"
      using i s by (simp only: list.set image_insert) blast
    with e show ?thesis by (simp only:)
  qed
qed

text \<open>
  Claim C7. For a container whose blob names are ASCII, the inventory lists, in the order
  of the listing, exactly the blobs whose name does not start with \<open>metadata/\<close> and
  whose suffix, in lower case, is one of the seven video extensions. Both drivers write
  metadata documents for videos of the inventory only: after a full batch, and after a
  request for a single video, every name in the container is either a name that was
  there before or \<open>metadata/<clean_name>.json\<close> for a video of the inventory. So a blob
  with another extension, and a blob under \<open>metadata/\<close> whatever its extension, is not
  in the inventory and gets no document.
\<close>

theorem inventory_membership:
  assumes "\<forall>b\<in>set store. isascii (name b)"
  shows "map blob_name (fst (list_existing_videos g store None)) =
       filter (\<lambda>n. \<not> startswith n ''metadata/'' \<and> lower (path_suffix n) \<in> set video_extensions)
         (map name store)
   \<and> name ` set (store_of (generate_all_metadata g fs force store))
       \<subseteq> name ` set store \<union> (\<lambda>v. ''metadata/'' @ clean_name v @ ''.json'')
             ` set (fst (list_existing_videos g store (videos_listing fs)))
   \<and> name ` set (fst (generate_metadata_for_video g fs x custom store))
       \<subseteq> name ` set store \<union> (\<lambda>v. ''metadata/'' @ clean_name v @ ''.json'')
             ` set (fst (list_existing_videos g store (videos_listing fs)))"
proof -
  have a: "map blob_name (fst (list_existing_videos g store None)) =
       filter (\<lambda>n. \<not> startswith n ''metadata/'' \<and> lower (path_suffix n) \<in> set video_extensions)
         (map name store)"
    by (simp add: list_existing_videos_def list_blobs_def startswith_def scan_blobs_names Let_def)
  have b: "name ` set (store_of (generate_all_metadata g fs force store))
       \<subseteq> name ` set store \<union> (\<lambda>v. ''metadata/'' @ clean_name v @ ''.json'')
             ` set (fst (list_existing_videos g store (videos_listing fs)))"
  proof (cases "list_existing_videos g store (videos_listing fs)")
    case (Pair videos evs)
    show ?thesis
    proof (cases "videos = []")
      case True
      with Pair show ?thesis by (simp add: generate_all_metadata_def)
    next
      case False
      with Pair batch_loop_names [of g _ force videos "\<lparr>store_of = store, generated_count = 0, skipped_count = 0,
                       upload_faults = uploads fs,
                       printed = evs @ [Generating_for (length videos)]\<rparr>"]
      show ?thesis by (simp add: generate_all_metadata_def Let_def)
    qed
  qed
  from a b single_video_names [of g fs x custom store] show ?thesis by (simp only: simp_thms)
qed


theorem inventory_membership_witness:
  "map blob_name (fst (list_existing_videos
         \<lparr>account_name = ''acct'', container_name = ''videos'', json_dumps = (\<lambda>m. ''{}'')\<rparr>
         [\<lparr>name = ''a.mp4'', blob_size = 1, content = []\<rparr>,
          \<lparr>name = ''notes.txt'', blob_size = 2, content = []\<rparr>,
          \<lparr>name = ''metadata/x.mp4'', blob_size = 3, content = []\<rparr>,
          \<lparr>name = ''B.MKV'', blob_size = 4, content = []\<rparr>] None)) = [''a.mp4'', ''B.MKV'']"
proof -
  have h: "\<forall>b\<in>set [\<lparr>name = ''a.mp4'', blob_size = 1, content = []\<rparr>,
                 \<lparr>name = ''notes.txt'', blob_size = 2, content = []\<rparr>,
                 \<lparr>name = ''metadata/x.mp4'', blob_size = 3, content = []\<rparr>,
                 \<lparr>name = ''B.MKV'', blob_size = 4, content = []\<rparr>]. isascii (name b)"
    by (simp add: isascii_def)
  have f: "filter (\<lambda>n. \<not> startswith n ''metadata/'' \<and> lower (path_suffix n) \<in> set video_extensions)
         (map name [\<lparr>name = ''a.mp4'', blob_size = 1, content = []\<rparr>,
                 \<lparr>name = ''notes.txt'', blob_size = 2, content = []\<rparr>,
                 \<lparr>name = ''metadata/x.mp4'', blob_size = 3, content = []\<rparr>,
                 \<lparr>name = ''B.MKV'', blob_size = 4, content = []\<rparr>]) = [''a.mp4'', ''B.MKV'']"
    by code_simp
  from inventory_membership [OF h, THEN conjunct1,
      of "\<lparr>account_name = ''acct'', container_name = ''videos'', json_dumps = (\<lambda>m. ''{}'')\<rparr>"] f show ?thesis by (simp only:) 
qed


section \<open>Video identifiers\<close>

lemma prefix_rule_in:
  "prefix_rule cats f = Some (c, r) \<Longrightarrow> c \<in> set cats"
  by (induction cats) (auto split: if_splits)

lemma detect_category_in:
  "detect_category_from_filename f \<in> set categories"
  by (simp add: detect_category_from_filename_def categories_def Let_def)

lemma parse_video_info_category:
  "fst (parse_video_info p) \<in> set categories"
proof (cases "folder_rule p")
  case (Some r)
  then have "fst r \<in> set categories"
    by (auto simp: folder_rule_def Let_def split: if_splits)
  with Some show ?thesis by (simp add: parse_video_info_def Let_def)
next
  case None
  show ?thesis
  proof (cases "prefix_rule categories (path_stem p)")
    case (Some r)
    with prefix_rule_in [of categories "path_stem p" "fst r" "snd r"] None show ?thesis
      by (simp add: parse_video_info_def Let_def)
  next
    case n: None
    with None detect_category_in show ?thesis by (simp add: parse_video_info_def Let_def)
  qed
qed

lemma scan_blobs_category:
  "v \<in> set (scan_blobs g bs) \<Longrightarrow> category v \<in> set categories"
proof (induction bs)
  case Nil
  then show ?case by simp
next
  case (Cons b bs)
  obtain cat cname where pv: "parse_video_info (name b) = (cat, cname)"
    by (cases "parse_video_info (name b)") auto
  with parse_video_info_category [of "name b"] have "cat \<in> set categories" by simp
  with Cons pv show ?case by (auto split: if_splits)
qed

lemma inventory_category:
  "v \<in> set (fst (list_existing_videos g store fault)) \<Longrightarrow> category v \<in> set categories"
  by (auto simp: list_existing_videos_def Let_def scan_blobs_category split: prod.splits option.splits)

lemma create_metadata_video_id:
  "map_of (create_metadata v None) ''video_id'' = Some (PyStr (video_id_of (category v) (clean_name v)))"
  by (simp add: create_metadata_def Let_def)

lemma video_id_of_eq:
  "c1 \<in> set categories \<Longrightarrow> c2 \<in> set categories \<Longrightarrow>
   (video_id_of c1 n1 = video_id_of c2 n2) = (c1 = c2 \<and> slug n1 = slug n2)"
  by (auto simp: video_id_of_def categories_def)

text \<open>
  Claim C4, as stated, fails: the blobs \<open>beginner/x.mp4\<close> and \<open>beginner/x.avi\<close> are two
  videos of one inventory, with different blob names, and the documents made for them
  have the same \<open>video_id\<close>, \<open>beginner-x\<close>.
\<close>

theorem video_id_collision_counterexample:
  "map blob_name (fst (list_existing_videos
      \<lparr>account_name = ''acct'', container_name = ''videos'', json_dumps = (\<lambda>m. ''{}'')\<rparr>
      [\<lparr>name = ''beginner/x.mp4'', blob_size = 1, content = []\<rparr>,
       \<lparr>name = ''beginner/x.avi'', blob_size = 2, content = []\<rparr>] None))
     = [''beginner/x.mp4'', ''beginner/x.avi'']
   \<and> map (\<lambda>v. map_of (create_metadata v None) ''video_id'') (fst (list_existing_videos
      \<lparr>account_name = ''acct'', container_name = ''videos'', json_dumps = (\<lambda>m. ''{}'')\<rparr>
      [\<lparr>name = ''beginner/x.mp4'', blob_size = 1, content = []\<rparr>,
       \<lparr>name = ''beginner/x.avi'', blob_size = 2, content = []\<rparr>] None))
     = [Some (PyStr ''beginner-x''), Some (PyStr ''beginner-x'')]"
  by code_simp

text \<open>
  Claim C4, amended. The \<open>video_id\<close> of the document made for a video is its category,
  a hyphen and the slug of its clean name. The documents of two videos of one inventory
  have the same \<open>video_id\<close> if and only if the videos have the same category and their
  clean names have the same slug; the blob names play no part.
\<close>

theorem video_id_equal_iff:
  assumes "v1 \<in> set (fst (list_existing_videos g store fault))"
    and "v2 \<in> set (fst (list_existing_videos g store fault))"
  shows "(map_of (create_metadata v1 None) ''video_id'' = map_of (create_metadata v2 None) ''video_id'')
     = (category v1 = category v2 \<and> slug (clean_name v1) = slug (clean_name v2))"
  using video_id_of_eq [OF inventory_category [OF assms(1)] inventory_category [OF assms(2)]]
  by (simp add: create_metadata_video_id)


theorem video_id_equal_iff_witness:
  "hd (fst (list_existing_videos
        \<lparr>account_name = ''acct'', container_name = ''videos'', json_dumps = (\<lambda>m. [])\<rparr>
        [\<lparr>name = ''beginner/x.mp4'', blob_size = 1, content = []\<rparr>,
         \<lparr>name = ''beginner/x.avi'', blob_size = 2, content = []\<rparr>] None))
     \<in> set (fst (list_existing_videos
        \<lparr>account_name = ''acct'', container_name = ''videos'', json_dumps = (\<lambda>m. [])\<rparr>
        [\<lparr>name = ''beginner/x.mp4'', blob_size = 1, content = []\<rparr>,
         \<lparr>name = ''beginner/x.avi'', blob_size = 2, content = []\<rparr>] None))
   \<and> last (fst (list_existing_videos
        \<lparr>account_name = ''acct'', container_name = ''videos'', json_dumps = (\<lambda>m. [])\<rparr>
        [\<lparr>name = ''beginner/x.mp4'', blob_size = 1, content = []\<rparr>,
         \<lparr>name = ''beginner/x.avi'', blob_size = 2, content = []\<rparr>] None))
     \<in> set (fst (list_existing_videos
        \<lparr>account_name = ''acct'', container_name = ''videos'', json_dumps = (\<lambda>m. [])\<rparr>
        [\<lparr>name = ''beginner/x.mp4'', blob_size = 1, content = []\<rparr>,
         \<lparr>name = ''beginner/x.avi'', blob_size = 2, content = []\<rparr>] None))
   \<and> blob_name (hd (fst (list_existing_videos
        \<lparr>account_name = ''acct'', container_name = ''videos'', json_dumps = (\<lambda>m. [])\<rparr>
        [\<lparr>name = ''beginner/x.mp4'', blob_size = 1, content = []\<rparr>,
         \<lparr>name = ''beginner/x.avi'', blob_size = 2, content = []\<rparr>] None)))
     \<noteq> blob_name (last (fst (list_existing_videos
        \<lparr>account_name = ''acct'', container_name = ''videos'', json_dumps = (\<lambda>m. [])\<rparr>
        [\<lparr>name = ''beginner/x.mp4'', blob_size = 1, content = []\<rparr>,
         \<lparr>name = ''beginner/x.avi'', blob_size = 2, content = []\<rparr>] None)))
   \<and> map_of (create_metadata (hd (fst (list_existing_videos
        \<lparr>account_name = ''acct'', container_name = ''videos'', json_dumps = (\<lambda>m. [])\<rparr>
        [\<lparr>name = ''beginner/x.mp4'', blob_size = 1, content = []\<rparr>,
         \<lparr>name = ''beginner/x.avi'', blob_size = 2, content = []\<rparr>] None))) None) ''video_id''
     = map_of (create_metadata (last (fst (list_existing_videos
        \<lparr>account_name = ''acct'', container_name = ''videos'', json_dumps = (\<lambda>m. [])\<rparr>
        [\<lparr>name = ''beginner/x.mp4'', blob_size = 1, content = []\<rparr>,
         \<lparr>name = ''beginner/x.avi'', blob_size = 2, content = []\<rparr>] None))) None) ''video_id''"
proof -
  have h1: "hd (fst (list_existing_videos
        \<lparr>account_name = ''acct'', container_name = ''videos'', json_dumps = (\<lambda>m. [])\<rparr>
        [\<lparr>name = ''beginner/x.mp4'', blob_size = 1, content = []\<rparr>,
         \<lparr>name = ''beginner/x.avi'', blob_size = 2, content = []\<rparr>] None))
     \<in> set (fst (list_existing_videos
        \<lparr>account_name = ''acct'', container_name = ''videos'', json_dumps = (\<lambda>m. [])\<rparr>
        [\<lparr>name = ''beginner/x.mp4'', blob_size = 1, content = []\<rparr>,
         \<lparr>name = ''beginner/x.avi'', blob_size = 2, content = []\<rparr>] None))"
    by code_simp
  have h2: "last (fst (list_existing_videos
        \<lparr>account_name = ''acct'', container_name = ''videos'', json_dumps = (\<lambda>m. [])\<rparr>
        [\<lparr>name = ''beginner/x.mp4'', blob_size = 1, content = []\<rparr>,
         \<lparr>name = ''beginner/x.avi'', blob_size = 2, content = []\<rparr>] None))
     \<in> set (fst (list_existing_videos
        \<lparr>account_name = ''acct'', container_name = ''videos'', json_dumps = (\<lambda>m. [])\<rparr>
        [\<lparr>name = ''beginner/x.mp4'', blob_size = 1, content = []\<rparr>,
         \<lparr>name = ''beginner/x.avi'', blob_size = 2, content = []\<rparr>] None))"
    by code_simp
  have d: "blob_name (hd (fst (list_existing_videos
        \<lparr>account_name = ''acct'', container_name = ''videos'', json_dumps = (\<lambda>m. [])\<rparr>
        [\<lparr>name = ''beginner/x.mp4'', blob_size = 1, content = []\<rparr>,
         \<lparr>name = ''beginner/x.avi'', blob_size = 2, content = []\<rparr>] None)))
     \<noteq> blob_name (last (fst (list_existing_videos
        \<lparr>account_name = ''acct'', container_name = ''videos'', json_dumps = (\<lambda>m. [])\<rparr>
        [\<lparr>name = ''beginner/x.mp4'', blob_size = 1, content = []\<rparr>,
         \<lparr>name = ''beginner/x.avi'', blob_size = 2, content = []\<rparr>] None)))"
    by code_simp
  have c: "category (hd (fst (list_existing_videos
        \<lparr>account_name = ''acct'', container_name = ''videos'', json_dumps = (\<lambda>m. [])\<rparr>
        [\<lparr>name = ''beginner/x.mp4'', blob_size = 1, content = []\<rparr>,
         \<lparr>name = ''beginner/x.avi'', blob_size = 2, content = []\<rparr>] None)))
     = category (last (fst (list_existing_videos
        \<lparr>account_name = ''acct'', container_name = ''videos'', json_dumps = (\<lambda>m. [])\<rparr>
        [\<lparr>name = ''beginner/x.mp4'', blob_size = 1, content = []\<rparr>,
         \<lparr>name = ''beginner/x.avi'', blob_size = 2, content = []\<rparr>] None)))
   \<and> slug (clean_name (hd (fst (list_existing_videos
        \<lparr>account_name = ''acct'', container_name = ''videos'', json_dumps = (\<lambda>m. [])\<rparr>
        [\<lparr>name = ''beginner/x.mp4'', blob_size = 1, content = []\<rparr>,
         \<lparr>name = ''beginner/x.avi'', blob_size = 2, content = []\<rparr>] None))))
     = slug (clean_name (last (fst (list_existing_videos
        \<lparr>account_name = ''acct'', container_name = ''videos'', json_dumps = (\<lambda>m. [])\<rparr>
        [\<lparr>name = ''beginner/x.mp4'', blob_size = 1, content = []\<rparr>,
         \<lparr>name = ''beginner/x.avi'', blob_size = 2, content = []\<rparr>] None))))"
    by code_simp
  from video_id_equal_iff [OF h1 h2] c h1 h2 d show ?thesis by (simp only: simp_thms)
qed


section \<open>Failure of the metadata listing\<close>









section \<open>A second run\<close>

text \<open>
  Claim C2. The claim fails on the container that holds the one video
  \<open>beginner-.mp4\<close>. Its clean name is empty, so the first run writes the document
  \<open>metadata/.json\<close>; the stem of that name is \<open>.json\<close>, not the empty clean name, so
  the second run, without forced overwriting and without any fault, does not find the
  clean name among the existing metadata: it skips nothing, generates the document
  again and uploads it again, although the document exists.
\<close>

theorem second_run_regenerates:
  "parse_video_info ''beginner-.mp4'' = (''beginner'', [])
   \<and> path_stem ''metadata/.json'' = ''.json''
   \<and> map name (store_of (generate_all_metadata g no_faults False
         [\<lparr>name = ''beginner-.mp4'', blob_size = 1, content = []\<rparr>]))
       = [''beginner-.mp4'', ''metadata/.json'']
   \<and> generated_count (generate_all_metadata g no_faults False
         (store_of (generate_all_metadata g no_faults False
           [\<lparr>name = ''beginner-.mp4'', blob_size = 1, content = []\<rparr>]))) = 1
   \<and> skipped_count (generate_all_metadata g no_faults False
         (store_of (generate_all_metadata g no_faults False
           [\<lparr>name = ''beginner-.mp4'', blob_size = 1, content = []\<rparr>]))) = 0
   \<and> printed (generate_all_metadata g no_faults False
         (store_of (generate_all_metadata g no_faults False
           [\<lparr>name = ''beginner-.mp4'', blob_size = 1, content = []\<rparr>])))
       = [Scanning, Found 1, Generating_for 1, Generating ''beginner-.mp4'',
          Created ''metadata/.json'', Complete, Generated 1, Skipped 0, Total 1]"
  by code_simp


section \<open>Priority of the classification rules\<close>

lemma split_on_not_Nil: "split_on sep s \<noteq> []"
  by (induction s) (auto split: list.splits)

lemma split_on_length: "sep \<in> set s \<Longrightarrow> 2 \<le> length (split_on sep s)"
proof (induction s)
  case Nil
  then show ?case by simp
next
  case (Cons c cs)
  obtain x xs where e: "split_on sep cs = x # xs"
    using split_on_not_Nil [of sep cs] by (cases "split_on sep cs") auto
  show ?case
  proof (cases "c = sep")
    case True
    with e show ?thesis by simp
  next
    case False
    with Cons have "2 \<le> length (split_on sep cs)" by simp
    with False e show ?thesis by simp
  qed
qed

lemma folder_rule_iff:
  "folder_rule p =
     (if CHR ''/'' \<in> set p \<and> lower (hd (split_on CHR ''/'' p)) \<in> set categories
      then Some (lower (hd (split_on CHR ''/'' p)), path_stem (last (split_on CHR ''/'' p)))
      else None)"
  using split_on_length [of "CHR ''/''" p] by (simp add: folder_rule_def Let_def)

lemma prefix_hd: "prefix (a # as) l \<Longrightarrow> hd l = a"
  by (cases l) auto

lemma prefix_rule_Some:
  assumes "cat \<in> set categories" and "prefix (cat @ ''-'') (lower f)"
  shows "prefix_rule categories f = Some (cat, drop (length cat + 1) f)"
proof -
  from assms(1) consider "cat = ''beginner''" | "cat = ''intermediate''" | "cat = ''advanced''"
    by (auto simp: categories_def)
  then show ?thesis
  proof cases
    case 1
    with assms(2) have "startswith (lower f) (''beginner'' @ ''-'')" by (simp only: startswith_def)
    then show ?thesis unfolding categories_def 1 by (simp only: prefix_rule.simps if_True)
  next
    case 2
    with assms(2) have p: "prefix (''intermediate'' @ ''-'') (lower f)" by (simp only:)
    then have h: "hd (lower f) = CHR ''i''" using prefix_hd [of "CHR ''i''" _ "lower f"] by simp
    have "\<not> prefix (''beginner'' @ ''-'') (lower f)"
    proof
      assume "prefix (''beginner'' @ ''-'') (lower f)"
      then have "hd (lower f) = CHR ''b''" using prefix_hd [of "CHR ''b''" _ "lower f"] by simp
      with h show False by simp
    qed
    with p have "\<not> startswith (lower f) (''beginner'' @ ''-'')"
      "startswith (lower f) (''intermediate'' @ ''-'')" by (simp_all only: startswith_def not_False_eq_True)
    then show ?thesis unfolding categories_def 2
      by (simp only: prefix_rule.simps if_True if_False)
  next
    case 3
    with assms(2) have p: "prefix (''advanced'' @ ''-'') (lower f)" by (simp only:)
    then have h: "hd (lower f) = CHR ''a''" using prefix_hd [of "CHR ''a''" _ "lower f"] by simp
    have "\<not> prefix (''beginner'' @ ''-'') (lower f)"
    proof
      assume "prefix (''beginner'' @ ''-'') (lower f)"
      then have "hd (lower f) = CHR ''b''" using prefix_hd [of "CHR ''b''" _ "lower f"] by simp
      with h show False by simp
    qed
    moreover have "\<not> prefix (''intermediate'' @ ''-'') (lower f)"
    proof
      assume "prefix (''intermediate'' @ ''-'') (lower f)"
      then have "hd (lower f) = CHR ''i''" using prefix_hd [of "CHR ''i''" _ "lower f"] by simp
      with h show False by simp
    qed
    ultimately have "\<not> startswith (lower f) (''beginner'' @ ''-'')"
      "\<not> startswith (lower f) (''intermediate'' @ ''-'')"
      "startswith (lower f) (''advanced'' @ ''-'')" using p by (simp_all only: startswith_def not_False_eq_True)
    then show ?thesis unfolding categories_def 3
      by (simp only: prefix_rule.simps if_True if_False)
  qed
qed

lemma prefix_rule_None_aux:
  "\<forall>cat\<in>set cats. \<not> prefix (cat @ ''-'') (lower f) \<Longrightarrow> prefix_rule cats f = None"
  by (induction cats) (simp_all add: startswith_def)


text \<open>
  Claim C6. \<open>parse_video_info\<close> applies three rules in order. When the blob name
  contains a slash and its first segment, in lower case, is one of the three categories,
  the category is that segment in lower case and the clean name is the stem of the last
  segment, whatever the other rules would give. Otherwise, when the stem of the blob
  name, in lower case, starts with a category followed by a hyphen, the category is
  that one and the clean name is the stem without this prefix; the three prefixes
  exclude one another, so the order in which they are tried does not matter. Only
  when neither rule applies is the category detected from the keywords, and the clean
  name is then the stem.
\<close>

theorem classification_priority:
  "(CHR ''/'' \<in> set p \<and> lower (hd (split_on CHR ''/'' p)) \<in> set categories \<longrightarrow>
      parse_video_info p =
        (lower (hd (split_on CHR ''/'' p)), path_stem (last (split_on CHR ''/'' p))))
   \<and> (\<not> (CHR ''/'' \<in> set p \<and> lower (hd (split_on CHR ''/'' p)) \<in> set categories) \<longrightarrow>
        (\<forall>cat\<in>set categories. prefix (cat @ ''-'') (lower (path_stem p)) \<longrightarrow>
           parse_video_info p = (cat, drop (length cat + 1) (path_stem p)))
      \<and> ((\<forall>cat\<in>set categories. \<not> prefix (cat @ ''-'') (lower (path_stem p))) \<longrightarrow>
           parse_video_info p = (detect_category_from_filename (path_stem p), path_stem p)))"
proof (intro conjI impI ballI)
  assume "CHR ''/'' \<in> set p \<and> lower (hd (split_on CHR ''/'' p)) \<in> set categories"
  then show "parse_video_info p =
        (lower (hd (split_on CHR ''/'' p)), path_stem (last (split_on CHR ''/'' p)))"
    by (simp add: parse_video_info_def folder_rule_iff Let_def)
next
  fix cat
  assume n: "\<not> (CHR ''/'' \<in> set p \<and> lower (hd (split_on CHR ''/'' p)) \<in> set categories)"
    and c: "cat \<in> set categories" and q: "prefix (cat @ ''-'') (lower (path_stem p))"
  from n have f: "folder_rule p = None" by (simp only: folder_rule_iff if_False)
  from f prefix_rule_Some [OF c q]
  show "parse_video_info p = (cat, drop (length cat + 1) (path_stem p))"
    by (simp add: parse_video_info_def Let_def)
next
  assume n: "\<not> (CHR ''/'' \<in> set p \<and> lower (hd (split_on CHR ''/'' p)) \<in> set categories)"
    and q: "\<forall>cat\<in>set categories. \<not> prefix (cat @ ''-'') (lower (path_stem p))"
  from n have f: "folder_rule p = None" by (simp only: folder_rule_iff if_False)
  from f prefix_rule_None_aux [OF q]
  show "parse_video_info p = (detect_category_from_filename (path_stem p), path_stem p)"
    by (simp add: parse_video_info_def Let_def)
qed

theorem classification_priority_witness:
  "parse_video_info ''Beginner/Intro.mp4'' = (''beginner'', ''Intro'')
   \<and> parse_video_info ''advanced-deep-dive.mp4'' = (''advanced'', ''deep-dive'')
   \<and> parse_video_info ''random_video_101.mp4'' = (''beginner'', ''random_video_101'')"
proof -
  have a1: "CHR ''/'' \<in> set ''Beginner/Intro.mp4''
      \<and> lower (hd (split_on CHR ''/'' ''Beginner/Intro.mp4'')) \<in> set categories"
    by code_simp
  have a2: "lower (hd (split_on CHR ''/'' ''Beginner/Intro.mp4'')) = ''beginner''
      \<and> path_stem (last (split_on CHR ''/'' ''Beginner/Intro.mp4'')) = ''Intro''"
    by code_simp
  have b1: "CHR ''/'' \<notin> set ''advanced-deep-dive.mp4'' \<and> ''advanced'' \<in> set categories
      \<and> prefix (''advanced'' @ ''-'') (lower (path_stem ''advanced-deep-dive.mp4''))"
    by code_simp
  have b2: "drop (length ''advanced'' + 1) (path_stem ''advanced-deep-dive.mp4'') = ''deep-dive''"
    by code_simp
  have c1: "CHR ''/'' \<notin> set ''random_video_101.mp4''
      \<and> (\<forall>cat\<in>set categories. \<not> prefix (cat @ ''-'') (lower (path_stem ''random_video_101.mp4'')))"
    by code_simp
  have c2: "detect_category_from_filename (path_stem ''random_video_101.mp4'') = ''beginner''
      \<and> path_stem ''random_video_101.mp4'' = ''random_video_101''"
    by code_simp
  from classification_priority [of "''Beginner/Intro.mp4''"] a1 a2
  have a: "parse_video_info ''Beginner/Intro.mp4'' = (''beginner'', ''Intro'')" by metis
  from classification_priority [of "''advanced-deep-dive.mp4''"] b1 b2
  have b: "parse_video_info ''advanced-deep-dive.mp4'' = (''advanced'', ''deep-dive'')" by metis
  from classification_priority [of "''random_video_101.mp4''"] c1 c2
  have c: "parse_video_info ''random_video_101.mp4'' = (''beginner'', ''random_video_101'')" by metis
  from a b c show ?thesis by (intro conjI)
qed

end
